theory Spec2Isabelle
  imports Complex_Main "HOL-Library.Monad_Syntax"
begin

section \<open>Landmark model\<close>

text \<open>
  A landmark is MediaPipe's \<open>NormalizedLandmark\<close>: three coordinates. The coordinates are
  JavaScript numbers; they are modelled as reals, so every threshold comparison of the source
  is the same comparison on exact values (no rounding, no NaN). The fields are named
  \<open>lm_x\<close>, \<open>lm_y\<close>, \<open>lm_z\<close> for the source's \<open>.x\<close>, \<open>.y\<close>, \<open>.z\<close>.
  A hand is an array of landmarks, a frame an array of hands.
\<close>

record landmark =
  lm_x :: real
  lm_y :: real
  lm_z :: real

type_synonym hand = "landmark list"
type_synonym frame = "hand list"

text \<open>
  \<open>landmarks[i].x\<close>: reading an index past the end of a JavaScript array gives
  \<open>undefined\<close>, and reading a property of \<open>undefined\<close> raises a TypeError. Every function
  below that can raise returns an option, \<open>None\<close> being the raised TypeError.
\<close>

definition landmark_at :: "hand \<Rightarrow> nat \<Rightarrow> landmark option" where
  "landmark_at l i = (if i < length l then Some (l ! i) else None)"

text \<open>\<open>Math.hypot(a.x - b.x, a.y - b.y)\<close>, the helper \<open>dist\<close> of both source files.\<close>

definition dist_xy :: "landmark \<Rightarrow> landmark \<Rightarrow> real" where
  "dist_xy a b = sqrt ((lm_x a - lm_x b)\<^sup>2 + (lm_y a - lm_y b)\<^sup>2)"

text \<open>The radicand of \<open>dist_xy\<close>; used only to evaluate comparisons of distances.\<close>

definition dist_sq :: "landmark \<Rightarrow> landmark \<Rightarrow> real" where
  "dist_sq a b = (lm_x a - lm_x b)\<^sup>2 + (lm_y a - lm_y b)\<^sup>2"

section \<open>Orientation detector\<close>

datatype Orientation = UP | DOWN | SIDE | NONE

text \<open>
  \<open>checkOrientation\<close> of \<open>src/lib/gesture-recognizer.ts\<close>. The argument is \<open>None\<close> for a
  missing (null) array.
\<close>

definition checkOrientation :: "hand option \<Rightarrow> Orientation option" where
  "checkOrientation landmarks =
     (case landmarks of
        None \<Rightarrow> Some NONE
      | Some l \<Rightarrow>
          if length l = 0 then Some NONE
          else do {
            wrist \<leftarrow> landmark_at l 0;
            indexTip \<leftarrow> landmark_at l 8;
            let dx = \<bar>lm_x indexTip - lm_x wrist\<bar>;
            let dy = \<bar>lm_y indexTip - lm_y wrist\<bar>;
            if dx > dy then Some SIDE
            else if lm_y indexTip < lm_y wrist then Some UP
            else Some DOWN
          })"

section \<open>Static pose classifier\<close>

text \<open>
  The module-level variables \<open>prevLandmarks\<close> and \<open>verticalHistory\<close> of
  \<open>src/lib/gesture-recognizer.ts\<close>; initially \<open>null\<close> and \<open>[]\<close>.
\<close>

record rstate =
  prevLandmarks :: "hand option"
  verticalHistory :: "int list"

definition initial_state :: rstate where
  "initial_state = \<lparr>prevLandmarks = None, verticalHistory = []\<rparr>"

text \<open>A finger is extended when its tip is further from the wrist than its PIP joint.\<close>

definition isExtended :: "landmark \<Rightarrow> landmark \<Rightarrow> landmark \<Rightarrow> bool" where
  "isExtended tip pip wrist = (dist_xy tip wrist > dist_xy pip wrist)"

text \<open>
  The finger states of \<open>recognizeGesture\<close>. They are read with \<open>!\<close>: the classifier
  evaluates them only after the reads of all the landmarks involved have succeeded.
\<close>

definition thumbOpen :: "hand \<Rightarrow> bool" where
  "thumbOpen l = (dist_xy (l ! 4) (l ! 5) > dist_xy (l ! 3) (l ! 5))"

definition indexOpen :: "hand \<Rightarrow> bool" where
  "indexOpen l = isExtended (l ! 8) (l ! 6) (l ! 0)"

definition middleOpen :: "hand \<Rightarrow> bool" where
  "middleOpen l = isExtended (l ! 12) (l ! 10) (l ! 0)"

definition ringOpen :: "hand \<Rightarrow> bool" where
  "ringOpen l = isExtended (l ! 16) (l ! 14) (l ! 0)"

definition pinkyOpen :: "hand \<Rightarrow> bool" where
  "pinkyOpen l = isExtended (l ! 20) (l ! 18) (l ! 0)"

text \<open>
  The motion block: with a previous frame, the sign of the wrist's vertical displacement is
  pushed on the history, which keeps its last 20 entries. \<open>prevLandmarks[0]\<close> of an empty
  previous array is \<open>undefined\<close> and reading its \<open>x\<close> raises.
\<close>

definition pushHistory :: "int list \<Rightarrow> int \<Rightarrow> int list" where
  "pushHistory h verticalDir =
     (let h1 = h @ [verticalDir]
      in if length h1 > 20 then tl h1 else h1)"

definition updateHistory :: "rstate \<Rightarrow> landmark \<Rightarrow> int list option" where
  "updateHistory s wrist =
     (case prevLandmarks s of
        None \<Rightarrow> Some (verticalHistory s)
      | Some prev \<Rightarrow> do {
          prevWrist \<leftarrow> landmark_at prev 0;
          let dy = lm_y wrist - lm_y prevWrist;
          let d1 = (if dy < - 0.02 then - 1 else 0);
          let verticalDir = (if dy > 0.02 then 1 else d1);
          Some (if verticalDir \<noteq> 0 then pushHistory (verticalHistory s) verticalDir
                else verticalHistory s)
        })"

text \<open>The loop counting the adjacent pairs of the history that differ.\<close>

fun directionChanges :: "int list \<Rightarrow> nat" where
  "directionChanges (a # b # rest) =
     (if b \<noteq> a then 1 else 0) + directionChanges (b # rest)"
| "directionChanges _ = 0"

text \<open>
  The letter branches, in the source's order. \<open>Some g\<close> is an early \<open>return g\<close>; \<open>None\<close>
  means that no branch returned and control reaches the end of the function.
\<close>

definition fistGroup :: "hand \<Rightarrow> string" where
  "fistGroup l =
     (if thumbOpen l then ''A''
      else if dist_xy (l ! 4) (l ! 6) < 0.05 \<or> dist_xy (l ! 4) (l ! 5) < 0.05 then ''T''
      else if dist_xy (l ! 4) (l ! 10) < 0.05 \<or> dist_xy (l ! 4) (l ! 9) < 0.05 then ''N''
      else if dist_xy (l ! 4) (l ! 14) < 0.05 \<or> dist_xy (l ! 4) (l ! 18) < 0.05 then ''M''
      else if dist_xy (l ! 4) (l ! 7) < 0.05 then ''S''
      else ''E'')"

definition indexGroup :: "Orientation \<Rightarrow> hand \<Rightarrow> string" where
  "indexGroup orientation l =
     (if thumbOpen l then (if orientation = SIDE then ''G'' else ''L'')
      else if orientation = DOWN then (if thumbOpen l then ''Q'' else ''Z'')
      else if orientation = SIDE then ''G''
      else if dist_xy (l ! 8) (l ! 6) < 0.08 then ''X''
      else ''D'')"

definition indexMiddleGroup :: "Orientation \<Rightarrow> hand \<Rightarrow> string" where
  "indexMiddleGroup orientation l =
     (if orientation = DOWN then ''P''
      else if orientation = SIDE then ''H''
      else if dist_xy (l ! 8) (l ! 12) < 0.03 then ''U''
      else if dist_xy (l ! 4) (l ! 10) < 0.06 then ''K''
      else ''V'')"

definition letterLogic :: "Orientation \<Rightarrow> hand \<Rightarrow> string option" where
  "letterLogic orientation l =
     (if \<not> indexOpen l \<and> \<not> middleOpen l \<and> \<not> ringOpen l \<and> \<not> pinkyOpen l
        then Some (fistGroup l)
      else if indexOpen l \<and> \<not> middleOpen l \<and> \<not> ringOpen l \<and> \<not> pinkyOpen l
        then Some (indexGroup orientation l)
      else if indexOpen l \<and> middleOpen l \<and> \<not> ringOpen l \<and> \<not> pinkyOpen l
        then Some (indexMiddleGroup orientation l)
      else if indexOpen l \<and> middleOpen l \<and> ringOpen l \<and> \<not> pinkyOpen l
        then Some ''W''
      else if \<not> indexOpen l \<and> \<not> middleOpen l \<and> \<not> ringOpen l \<and> pinkyOpen l
        then Some (if thumbOpen l then ''Y'' else ''I'')
      else if \<not> indexOpen l \<and> middleOpen l \<and> ringOpen l \<and> pinkyOpen l
        then Some ''F''
      else if middleOpen l \<and> ringOpen l \<and> pinkyOpen l \<and> dist_xy (l ! 4) (l ! 8) < 0.06
        then Some ''F''
      else if dist_xy (l ! 4) (l ! 8) < 0.06 \<and> dist_xy (l ! 4) (l ! 12) < 0.06
        then Some ''O''
      else if indexOpen l \<and> middleOpen l \<and> ringOpen l \<and> pinkyOpen l
        then Some (if dist_xy (l ! 4) (l ! 8) > 0.05 \<and> dist_xy (l ! 4) (l ! 8) < 0.25
                   then ''C'' else ''B'')
      else None)"

text \<open>
  \<open>recognizeGesture\<close> of \<open>src/lib/gesture-recognizer.ts\<close>, as a function from the module
  state and the argument to the returned label and the new module state.

  Before the first branch the source computes the orientation, the five finger states and
  three distances; these read the \<open>x\<close> and \<open>y\<close> of landmarks 0, 3, 4, 5, 6, 8, 10, 12, 14, 16,
  18 and 20, so a non-empty hand with fewer than 21 landmarks raises there, with the module
  state untouched. The unused \<open>motion\<close> object (\<open>dx\<close>, \<open>dz\<close>, \<open>speed\<close>) is left out.
\<close>

definition recognizeGesture :: "rstate \<Rightarrow> hand option \<Rightarrow> (string \<times> rstate) option" where
  "recognizeGesture s landmarks =
     (case landmarks of
        None \<Rightarrow> Some (''NONE'', s)
      | Some l \<Rightarrow>
          if length l = 0 then Some (''NONE'', s)
          else do {
            orientation \<leftarrow> checkOrientation (Some l);
            wrist \<leftarrow> landmark_at l 0;
            _ \<leftarrow> landmark_at l 4; _ \<leftarrow> landmark_at l 5; _ \<leftarrow> landmark_at l 3;
            _ \<leftarrow> landmark_at l 8; _ \<leftarrow> landmark_at l 6;
            _ \<leftarrow> landmark_at l 12; _ \<leftarrow> landmark_at l 10;
            _ \<leftarrow> landmark_at l 16; _ \<leftarrow> landmark_at l 14;
            _ \<leftarrow> landmark_at l 20; _ \<leftarrow> landmark_at l 18;
            h \<leftarrow> updateHistory s wrist;
            if length h > 6 \<and> directionChanges h \<ge> 4
            then Some (''6-7'', \<lparr>prevLandmarks = Some l, verticalHistory = []\<rparr>)
            else (case letterLogic orientation l of
                    Some g \<Rightarrow> Some (g, s\<lparr>verticalHistory := h\<rparr>)
                  | None \<Rightarrow> Some (''NONE'', \<lparr>prevLandmarks = Some l, verticalHistory = h\<rparr>))
          })"

section \<open>Gesture buffer\<close>

text \<open>
  The class \<open>GestureBuffer\<close> of \<open>src/unnamed/part_000\<close>: a list of frames and the capacity
  \<open>maxSize\<close>, a number of frames (30 by default, and 30 at the only place that constructs
  one). Each method takes the object and returns the updated object.
\<close>

record GestureBuffer =
  buffer :: "frame list"
  maxSize :: nat

definition newGestureBuffer :: "nat \<Rightarrow> GestureBuffer" where
  "newGestureBuffer n = \<lparr>buffer = [], maxSize = n\<rparr>"

definition add :: "GestureBuffer \<Rightarrow> frame \<Rightarrow> GestureBuffer" where
  "add b landmarks =
     (let pushed = buffer b @ [landmarks]
      in b\<lparr>buffer := (if length pushed > maxSize b then tl pushed else pushed)\<rparr>)"

definition getBuffer :: "GestureBuffer \<Rightarrow> frame list" where
  "getBuffer b = buffer b"

definition clear :: "GestureBuffer \<Rightarrow> GestureBuffer" where
  "clear b = b\<lparr>buffer := []\<rparr>"

text \<open>Sequences of calls on one buffer, and the frames added since the last \<open>clear\<close>.\<close>

datatype buffer_op = Add frame | Clear

fun apply_op :: "GestureBuffer \<Rightarrow> buffer_op \<Rightarrow> GestureBuffer" where
  "apply_op b (Add f) = add b f"
| "apply_op b Clear = clear b"

definition run_ops :: "GestureBuffer \<Rightarrow> buffer_op list \<Rightarrow> GestureBuffer" where
  "run_ops b ops = foldl apply_op b ops"

fun track :: "frame list \<Rightarrow> buffer_op \<Rightarrow> frame list" where
  "track fs (Add f) = fs @ [f]"
| "track fs Clear = []"

definition addedSinceClear :: "buffer_op list \<Rightarrow> frame list" where
  "addedSinceClear ops = foldl track [] ops"

section \<open>Dynamic gesture matcher\<close>

text \<open>
  Array methods whose callback may raise: \<open>some\<close> and \<open>find\<close> stop at the first element
  for which the callback is true, \<open>filter\<close> and \<open>map\<close> call it on every element.
\<close>

fun some_arr :: "('a \<Rightarrow> bool option) \<Rightarrow> 'a list \<Rightarrow> bool option" where
  "some_arr p [] = Some False"
| "some_arr p (a # as) = do { t \<leftarrow> p a; if t then Some True else some_arr p as }"

fun find_arr :: "('a \<Rightarrow> bool option) \<Rightarrow> 'a list \<Rightarrow> 'a option option" where
  "find_arr p [] = Some None"
| "find_arr p (a # as) = do { t \<leftarrow> p a; if t then Some (Some a) else find_arr p as }"

fun filter_arr :: "('a \<Rightarrow> bool option) \<Rightarrow> 'a list \<Rightarrow> 'a list option" where
  "filter_arr p [] = Some []"
| "filter_arr p (a # as) =
     do { t \<leftarrow> p a; r \<leftarrow> filter_arr p as; Some (if t then a # r else r) }"

fun map_arr :: "('a \<Rightarrow> 'b option) \<Rightarrow> 'a list \<Rightarrow> 'b list option" where
  "map_arr f [] = Some []"
| "map_arr f (a # as) = do { v \<leftarrow> f a; r \<leftarrow> map_arr f as; Some (v # r) }"

text \<open>\<open>a && b\<close> on conditions that may raise: \<open>b\<close> is not evaluated when \<open>a\<close> is false.\<close>

definition and_then :: "bool option \<Rightarrow> bool option \<Rightarrow> bool option" where
  "and_then a b = do { t \<leftarrow> a; if t then b else Some False }"

text \<open>
  The helpers of \<open>recognizeDynamicGesture\<close>. \<open>extended l tip pip\<close> is
  \<open>isExtended(l[tip], l[pip], l[0])\<close> and \<open>not_extended\<close> its negation; \<open>wristX\<close> and
  \<open>wristY\<close> are \<open>h[0].x\<close> and \<open>h[0].y\<close>.
\<close>

definition extended :: "hand \<Rightarrow> nat \<Rightarrow> nat \<Rightarrow> bool option" where
  "extended l tip pip =
     do { t \<leftarrow> landmark_at l tip; w \<leftarrow> landmark_at l 0; p \<leftarrow> landmark_at l pip;
          Some (isExtended t p w) }"

definition not_extended :: "hand \<Rightarrow> nat \<Rightarrow> nat \<Rightarrow> bool option" where
  "not_extended l tip pip = do { e \<leftarrow> extended l tip pip; Some (\<not> e) }"

definition wristX :: "hand \<Rightarrow> real option" where
  "wristX h = do { w \<leftarrow> landmark_at h 0; Some (lm_x w) }"

definition wristY :: "hand \<Rightarrow> real option" where
  "wristY h = do { w \<leftarrow> landmark_at h 0; Some (lm_y w) }"

definition checkYShape :: "hand \<Rightarrow> bool option" where
  "checkYShape landmarks =
     do { thumbOpen \<leftarrow> extended landmarks 4 2;
          pinkyOpen \<leftarrow> extended landmarks 20 18;
          indexClosed \<leftarrow> not_extended landmarks 8 6;
          middleClosed \<leftarrow> not_extended landmarks 12 10;
          ringClosed \<leftarrow> not_extended landmarks 16 14;
          Some (thumbOpen \<and> pinkyOpen \<and> indexClosed \<and> middleClosed \<and> ringClosed) }"

definition y_less :: "hand \<Rightarrow> nat \<Rightarrow> nat \<Rightarrow> bool option" where
  "y_less l i j =
     do { a \<leftarrow> landmark_at l i; b \<leftarrow> landmark_at l j; Some (lm_y a < lm_y b) }"

definition checkOpenHand :: "hand \<Rightarrow> bool option" where
  "checkOpenHand landmarks =
     and_then (and_then (and_then (y_less landmarks 8 5) (y_less landmarks 12 9))
                        (y_less landmarks 16 13))
              (y_less landmarks 20 17)"

definition isFist :: "hand \<Rightarrow> bool option" where
  "isFist l =
     and_then (and_then (and_then (not_extended l 8 6) (not_extended l 12 10))
                        (not_extended l 16 14))
              (not_extended l 20 18)"

definition isFlat :: "hand \<Rightarrow> bool option" where
  "isFlat l =
     and_then (and_then (and_then (extended l 8 6) (extended l 12 10))
                        (extended l 16 14))
              (extended l 20 18)"

definition isPointing :: "hand \<Rightarrow> bool option" where
  "isPointing l =
     and_then (and_then (and_then (extended l 8 6) (not_extended l 12 10))
                        (not_extended l 16 14))
              (not_extended l 20 18)"

text \<open>
  The loop of the HELLO and YES detectors that counts direction changes: a step counts when
  it is larger than 0.005 in absolute value and its sign differs from the last sign recorded.
\<close>

fun reversalsLoop :: "int \<Rightarrow> nat \<Rightarrow> real list \<Rightarrow> nat" where
  "reversalsLoop lastDir changes (a # b # rest) =
     (let dx = b - a
      in if \<bar>dx\<bar> > 0.005
         then (let dir = (if dx > 0 then 1 else - 1)
               in reversalsLoop dir
                    (if lastDir \<noteq> 0 \<and> dir \<noteq> lastDir then changes + 1
                     else changes)
                    (b # rest))
         else reversalsLoop lastDir changes (b # rest))"
| "reversalsLoop lastDir changes _ = changes"

definition countReversals :: "real list \<Rightarrow> nat" where
  "countReversals vs = reversalsLoop 0 0 vs"

text \<open>
  \<open>Math.max(...vs) - Math.min(...vs)\<close>; both detectors compute it on lists that they have
  checked to be non-empty.
\<close>

definition range_of :: "real list \<Rightarrow> real" where
  "range_of vs = Max (set vs) - Min (set vs)"

subsection \<open>1. HELLO\<close>

definition recentFramesForHello :: "frame list \<Rightarrow> frame list" where
  "recentFramesForHello frames = drop (length frames - 20) frames"

definition openHandCount :: "frame list \<Rightarrow> nat option" where
  "openHandCount recent =
     do { fs \<leftarrow> filter_arr (\<lambda>f. some_arr checkOpenHand f) recent; Some (length fs) }"

fun collectWristXs :: "frame list \<Rightarrow> real list option" where
  "collectWristXs [] = Some []"
| "collectWristXs (frame # rest) =
     do { openHandsInFrame \<leftarrow> filter_arr checkOpenHand frame;
          pushed \<leftarrow> (case openHandsInFrame of
                       [] \<Rightarrow> Some []
                     | h # _ \<Rightarrow> do { v \<leftarrow> wristX h; Some [v] });
          more \<leftarrow> collectWristXs rest;
          Some (pushed @ more) }"

definition helloDetected :: "frame list \<Rightarrow> bool option" where
  "helloDetected frames =
     do { n \<leftarrow> openHandCount (recentFramesForHello frames);
          if n > 14
          then do { wristXs \<leftarrow> collectWristXs (recentFramesForHello frames);
                    if length wristXs > 10
                    then Some (countReversals wristXs \<ge> 2 \<and> range_of wristXs > 0.1)
                    else Some False }
          else Some False }"

subsection \<open>2. YES\<close>

fun collectYHands :: "frame list \<Rightarrow> hand list option" where
  "collectYHands [] = Some []"
| "collectYHands (frame # rest) =
     do { foundYHand \<leftarrow> find_arr checkYShape frame;
          more \<leftarrow> collectYHands rest;
          Some (case foundYHand of None \<Rightarrow> more | Some h \<Rightarrow> h # more) }"

definition yesDetected :: "frame list \<Rightarrow> frame \<Rightarrow> bool option" where
  "yesDetected frames currentFrame =
     do { yHand \<leftarrow> find_arr checkYShape currentFrame;
          case yHand of
            None \<Rightarrow> Some False
          | Some _ \<Rightarrow>
              do { yHandHistory \<leftarrow> collectYHands (drop (length frames - 15) frames);
                   if length yHandHistory > 8
                   then do { wristYs \<leftarrow> map_arr wristY yHandHistory;
                             wristXs \<leftarrow> map_arr wristX yHandHistory;
                             let rangeY = range_of wristYs;
                             let rangeX = range_of wristXs;
                             Some (countReversals wristYs \<ge> 2 \<and> rangeY > 0.1
                                   \<and> rangeY > rangeX * 1.5) }
                   else Some False } }"

subsection \<open>3. NO\<close>

definition isTapPose :: "hand \<Rightarrow> bool option" where
  "isTapPose landmarks =
     do { t \<leftarrow> landmark_at landmarks 4; i \<leftarrow> landmark_at landmarks 8;
          m \<leftarrow> landmark_at landmarks 12;
          Some (dist_xy t i < 0.05 \<and> dist_xy t m < 0.05) }"

definition fingersApart :: "hand \<Rightarrow> bool option" where
  "fingersApart h =
     do { t \<leftarrow> landmark_at h 4; i \<leftarrow> landmark_at h 8; m \<leftarrow> landmark_at h 12;
          Some (dist_xy t i > 0.1 \<and> dist_xy t m > 0.1) }"

definition noDetected :: "frame list \<Rightarrow> frame \<Rightarrow> bool option" where
  "noDetected frames currentFrame =
     do { tapHand \<leftarrow> find_arr isTapPose currentFrame;
          case tapHand of
            None \<Rightarrow> Some False
          | Some _ \<Rightarrow>
              some_arr (\<lambda>f. some_arr fingersApart f)
                (drop (length frames - 15) (take (length frames - 5) frames)) }"

subsection \<open>4. HELP\<close>

definition frameAvgY :: "frame \<Rightarrow> real option" where
  "frameAvgY frame =
     (if length frame \<ge> 2
      then do { currentFist \<leftarrow> find_arr isFist frame;
                currentFlat \<leftarrow> find_arr isFlat frame;
                case (currentFist, currentFlat) of
                  (Some fi, Some fl) \<Rightarrow>
                    do { a \<leftarrow> wristY fi; b \<leftarrow> wristY fl; Some ((a + b) / 2) }
                | _ \<Rightarrow>
                    do { ys \<leftarrow> map_arr wristY frame;
                         Some (foldl (\<lambda>sum v. sum + v) 0 ys / real (length frame)) } }
      else if length frame = 1 then wristY (frame ! 0)
      else Some 1)"

definition fistAndFlat :: "hand \<Rightarrow> hand \<Rightarrow> (hand \<times> hand) option option" where
  "fistAndFlat hand1 hand2 =
     do { c1 \<leftarrow> and_then (isFist hand1) (isFlat hand2);
          if c1 then Some (Some (hand1, hand2))
          else do { c2 \<leftarrow> and_then (isFist hand2) (isFlat hand1);
                    Some (if c2 then Some (hand2, hand1) else None) } }"

definition helpDetected :: "frame list \<Rightarrow> frame \<Rightarrow> bool option" where
  "helpDetected frames currentFrame =
     (if length currentFrame \<ge> 2
      then do { pair \<leftarrow> fistAndFlat (currentFrame ! 0) (currentFrame ! 1);
                case pair of
                  None \<Rightarrow> Some False
                | Some (fistHand, flatHand) \<Rightarrow>
                    do { w \<leftarrow> landmark_at fistHand 0;
                         m \<leftarrow> landmark_at flatHand 9;
                         if dist_xy w m < 0.15
                         then do { avgYs \<leftarrow> map_arr frameAvgY (drop (length frames - 10) frames);
                                   if length avgYs > 5
                                   then Some (avgYs ! 0 - avgYs ! (length avgYs - 1) > 0.1)
                                   else Some False }
                         else Some False } }
      else Some False)"

subsection \<open>5. TIME\<close>

definition pointerAndTarget :: "hand \<Rightarrow> hand \<Rightarrow> (hand \<times> hand) option option" where
  "pointerAndTarget hand1 hand2 =
     do { p1 \<leftarrow> isPointing hand1;
          if p1 then Some (Some (hand1, hand2))
          else do { p2 \<leftarrow> isPointing hand2;
                    Some (if p2 then Some (hand2, hand1) else None) } }"

definition timeDetected :: "frame \<Rightarrow> bool option" where
  "timeDetected currentFrame =
     (if length currentFrame \<ge> 2
      then do { pair \<leftarrow> pointerAndTarget (currentFrame ! 0) (currentFrame ! 1);
                case pair of
                  None \<Rightarrow> Some False
                | Some (pointerHand, targetHand) \<Rightarrow>
                    do { tip \<leftarrow> landmark_at pointerHand 8;
                         w \<leftarrow> landmark_at targetHand 0;
                         Some (dist_xy tip w < 0.1) } }
      else Some False)"

subsection \<open>The matcher\<close>

text \<open>
  \<open>recognizeDynamicGesture\<close> of \<open>src/unnamed/part_000\<close>. The result is \<open>None\<close> when the call
  raises, \<open>Some None\<close> when it returns \<open>null\<close>, and \<open>Some (Some name)\<close> when it returns a
  gesture name. The detectors run in the source's order, each one only when the ones before
  it did not return.
\<close>

definition recognizeDynamicGesture :: "GestureBuffer \<Rightarrow> string option option" where
  "recognizeDynamicGesture b =
     (let frames = getBuffer b
      in if length frames < 5 then Some None
         else (let currentFrame = frames ! (length frames - 1)
               in if length currentFrame = 0 then Some None
                  else do {
                    hello \<leftarrow> helloDetected frames;
                    if hello then Some (Some ''HELLO'')
                    else do {
                      yes \<leftarrow> yesDetected frames currentFrame;
                      if yes then Some (Some ''YES'')
                      else do {
                        no \<leftarrow> noDetected frames currentFrame;
                        if no then Some (Some ''NO'')
                        else do {
                          help \<leftarrow> helpDetected frames currentFrame;
                          if help then Some (Some ''HELP'')
                          else do {
                            time \<leftarrow> timeDetected currentFrame;
                            if time then Some (Some ''TIME'') else Some None } } } } }))"

section \<open>Concrete inputs\<close>

text \<open>Hands and buffers on which the functions above are evaluated further down.\<close>

definition pt :: "real \<Rightarrow> real \<Rightarrow> landmark" where
  "pt a b = \<lparr>lm_x = a, lm_y = b, lm_z = 0\<rparr>"

text \<open>
  A fist with the thumb stuck out: every landmark at the wrist position \<open>(0.5, wy)\<close> except
  the thumb tip.
\<close>

definition fist_thumb_out :: "real \<Rightarrow> hand" where
  "fist_thumb_out wy = (replicate 21 (pt 0.5 wy))[4 := pt 0.7 wy]"

text \<open>
  An open hand whose thumb tip lies 0.01 from the tips of index and middle finger: wrist at
  \<open>(0.5, 0.9)\<close>, the joints at \<open>(0.5, 0.6)\<close>, the four finger tips at height 0.3.
\<close>

definition pinched_open_hand :: hand where
  "pinched_open_hand =
     (replicate 21 (pt 0.5 0.6))
       [0 := pt 0.5 0.9, 4 := pt 0.51 0.3, 8 := pt 0.5 0.3, 12 := pt 0.52 0.3,
        16 := pt 0.55 0.3, 20 := pt 0.6 0.3]"

text \<open>The example hand of the orientation detector: wrist (0.5, 0.5), index tip (0.5, 0.3).\<close>

definition pointing_up :: hand where
  "pointing_up = (replicate 21 (pt 0.5 0.5))[8 := pt 0.5 0.3]"

text \<open>A module state one downward step away from a shake.\<close>

definition before_shake :: rstate where
  "before_shake =
     \<lparr>prevLandmarks = Some (fist_thumb_out 0.5), verticalHistory = [- 1, 1, - 1, 1, - 1, 1]\<rparr>"

definition shaking :: rstate where
  "shaking = \<lparr>prevLandmarks = None, verticalHistory = [- 1, 1, - 1, 1, - 1, 1, - 1]\<rparr>"

text \<open>
  A hand with the wrist at \<open>(wx, 0.5)\<close> and the four finger tips above their MCP joints,
  and a wave: wrist positions of period 6 and amplitude 0.15 around 0.5.
\<close>

definition open_hand_at :: "real \<Rightarrow> hand" where
  "open_hand_at wx =
     (replicate 21 (pt wx 0.5))
       [8 := pt wx 0.3, 12 := pt wx 0.3, 16 := pt wx 0.3, 20 := pt wx 0.3]"

definition wave :: "real list" where
  "wave = [0.35, 0.45, 0.55, 0.65, 0.55, 0.45, 0.35, 0.45, 0.55, 0.65,
           0.55, 0.45, 0.35, 0.45, 0.55, 0.65, 0.55, 0.45, 0.35, 0.45]"

definition waving_buffer :: GestureBuffer where
  "waving_buffer = \<lparr>buffer = map (\<lambda>wx. [open_hand_at wx]) wave, maxSize = 30\<rparr>"

definition wave_then_no_hand :: GestureBuffer where
  "wave_then_no_hand =
     \<lparr>buffer = map (\<lambda>wx. [open_hand_at wx]) (take 19 wave) @ [[]], maxSize = 30\<rparr>"

text \<open>Numbered frames, to tell the frames of a buffer apart.\<close>

definition frame_no :: "nat \<Rightarrow> frame" where
  "frame_no i = [[pt (real i) 0]]"


section \<open>Evaluating distances and landmark reads\<close>


lemma dist_xy_sqrt: "dist_xy a b = sqrt (dist_sq a b)"
  by (simp add: dist_xy_def dist_sq_def)

lemma dist_xy_less_dist_xy: "dist_xy a b < dist_xy c d \<longleftrightarrow> dist_sq a b < dist_sq c d"
  by (simp add: dist_xy_sqrt)

lemma dist_xy_less_const: "0 < c \<Longrightarrow> dist_xy a b < c \<longleftrightarrow> dist_sq a b < c\<^sup>2"
  using real_sqrt_less_iff [of "dist_sq a b" "c\<^sup>2"] by (simp add: dist_xy_sqrt)

lemma length_fist_thumb_out: "length (fist_thumb_out wy) = 21"
  by (simp add: fist_thumb_out_def)

lemma nth_fist_thumb_out:
  "i < 21 \<Longrightarrow> fist_thumb_out wy ! i = (if i = 4 then pt 0.7 wy else pt 0.5 wy)"
  by (simp add: fist_thumb_out_def nth_list_update)

lemma fingers_fist_thumb_out:
  "thumbOpen (fist_thumb_out wy)" "\<not> indexOpen (fist_thumb_out wy)"
  "\<not> middleOpen (fist_thumb_out wy)" "\<not> ringOpen (fist_thumb_out wy)"
  "\<not> pinkyOpen (fist_thumb_out wy)"
  by (simp_all add: thumbOpen_def indexOpen_def middleOpen_def ringOpen_def pinkyOpen_def
      isExtended_def nth_fist_thumb_out dist_xy_less_dist_xy dist_sq_def pt_def)

lemma letterLogic_fist_thumb_out: "letterLogic orientation (fist_thumb_out wy) = Some ''A''"
  by (simp add: letterLogic_def fistGroup_def fingers_fist_thumb_out)

lemma checkOrientation_fist_thumb_out: "checkOrientation (Some (fist_thumb_out wy)) = Some DOWN"
  by (simp add: checkOrientation_def landmark_at_def length_fist_thumb_out nth_fist_thumb_out
      pt_def)

section \<open>The static classifier: labels and the shape of a call\<close>

lemma if_neq: "a \<noteq> v \<Longrightarrow> b \<noteq> v \<Longrightarrow> (if c then a else b) \<noteq> v"
  by simp

lemma fistGroup_labels:
  "fistGroup l \<noteq> ''J''" "fistGroup l \<noteq> ''R''" "fistGroup l \<noteq> ''6-7''"
  unfolding fistGroup_def by (intro if_neq; simp)+

lemma indexGroup_labels:
  "indexGroup orientation l \<noteq> ''J''" "indexGroup orientation l \<noteq> ''R''"
  "indexGroup orientation l \<noteq> ''6-7''"
  unfolding indexGroup_def by (intro if_neq; simp)+

lemma indexMiddleGroup_labels:
  "indexMiddleGroup orientation l \<noteq> ''J''" "indexMiddleGroup orientation l \<noteq> ''R''"
  "indexMiddleGroup orientation l \<noteq> ''6-7''"
  unfolding indexMiddleGroup_def by (intro if_neq; simp)+

lemma letterLogic_labels:
  "letterLogic orientation l \<noteq> Some ''J''"
  "letterLogic orientation l \<noteq> Some ''R''"
  "letterLogic orientation l \<noteq> Some ''6-7''"
  unfolding letterLogic_def
  by (intro if_neq; simp add: fistGroup_labels indexGroup_labels indexMiddleGroup_labels)+


lemma checkOrientation_Some:
  assumes "8 < length l"
  shows "checkOrientation (Some l) =
     Some (if \<bar>lm_x (l ! 8) - lm_x (l ! 0)\<bar> > \<bar>lm_y (l ! 8) - lm_y (l ! 0)\<bar> then SIDE
           else if lm_y (l ! 8) < lm_y (l ! 0) then UP else DOWN)"
  using assms by (auto simp: checkOrientation_def landmark_at_def Let_def)

lemma recognizeGesture_wf:
  assumes "21 \<le> length l" and "checkOrientation (Some l) = Some orientation"
    and "updateHistory s (l ! 0) = Some h"
  shows "recognizeGesture s (Some l) =
            (if length h > 6 \<and> directionChanges h \<ge> 4
            then Some (''6-7'', \<lparr>prevLandmarks = Some l, verticalHistory = []\<rparr>)
            else (case letterLogic orientation l of
                    Some g \<Rightarrow> Some (g, s\<lparr>verticalHistory := h\<rparr>)
                  | None \<Rightarrow> Some (''NONE'', \<lparr>prevLandmarks = Some l, verticalHistory = h\<rparr>)))"
proof -
  from assms(1) have at: "\<And>i. i < 21 \<Longrightarrow> landmark_at l i = Some (l ! i)"
    by (simp add: landmark_at_def)
  from assms(1) have ne: "length l \<noteq> 0" by auto
  show ?thesis
    unfolding recognizeGesture_def using ne by (simp add: assms(2,3) at)
qed

lemma recognizeGesture_short:
  assumes "length l \<noteq> 0" "length l < 21"
  shows "recognizeGesture s (Some l) = None"
proof (cases "checkOrientation (Some l)")
  case None
  then show ?thesis using assms by (simp add: recognizeGesture_def)
next
  case (Some a)
  have "landmark_at l 20 = None" using assms by (simp add: landmark_at_def)
  then show ?thesis using assms Some
    by (simp add: recognizeGesture_def split: Option.bind_split)
qed


lemma updateHistory_same_frame:
  assumes "l \<noteq> []"
  shows "updateHistory \<lparr>prevLandmarks = Some l, verticalHistory = h\<rparr> (l ! 0) = Some h"
  using assms by (simp add: updateHistory_def landmark_at_def)

lemma updateHistory_Some:
  assumes "prevLandmarks s = Some prev" and "prev \<noteq> []"
  shows "updateHistory s wrist =
     Some (if lm_y wrist - lm_y (prev ! 0) < - 0.02 then pushHistory (verticalHistory s) (- 1)
           else if lm_y wrist - lm_y (prev ! 0) > 0.02 then pushHistory (verticalHistory s) 1
           else verticalHistory s)"
  using assms by (simp add: updateHistory_def landmark_at_def Let_def)

lemma pushHistory_cap:
  "pushHistory h d = (if length h < 20 then h @ [d] else tl h @ [d])"
  by (cases h) (simp_all add: pushHistory_def Let_def)

lemma length_pushHistory: "length h \<le> 20 \<Longrightarrow> length (pushHistory h d) \<le> 20"
  by (simp add: pushHistory_cap)


lemma recognizeGesture_null: "recognizeGesture s None = Some (''NONE'', s)"
  by (simp add: recognizeGesture_def)

lemma recognizeGesture_empty: "recognizeGesture s (Some []) = Some (''NONE'', s)"
  by (simp add: recognizeGesture_def)

lemma recognizeGesture_raise:
  assumes "21 \<le> length l" and "updateHistory s (l ! 0) = None"
  shows "recognizeGesture s (Some l) = None"
proof -
  from assms(1) have at: "\<And>i. i < 21 \<Longrightarrow> landmark_at l i = Some (l ! i)"
    by (simp add: landmark_at_def)
  from assms(1) have ne: "length l \<noteq> 0" by auto
  from assms(1) have o: "checkOrientation (Some l) = Some (if \<bar>lm_x (l ! 8) - lm_x (l ! 0)\<bar> > \<bar>lm_y (l ! 8) - lm_y (l ! 0)\<bar> then SIDE
           else if lm_y (l ! 8) < lm_y (l ! 0) then UP else DOWN)"
    by (simp add: checkOrientation_Some)
  show ?thesis
    unfolding recognizeGesture_def using ne by (simp add: assms(2) at o)
qed

text \<open>Every call falls into one of four cases.\<close>

lemma recognizeGesture_cases:
  obtains (null) "landmarks = None"
  | (empty) "landmarks = Some []"
  | (raise) "recognizeGesture s landmarks = None"
  | (wf) l orientation h where "landmarks = Some l" "21 \<le> length l"
      "checkOrientation (Some l) = Some orientation" "updateHistory s (l ! 0) = Some h"
proof (cases landmarks)
  case None
  then show ?thesis by (rule null)
next
  case (Some l)
  have "l = [] \<or> (length l \<noteq> 0 \<and> length l < 21) \<or> 21 \<le> length l"
    by force
  then consider "l = []" | "length l \<noteq> 0" "length l < 21" | "21 \<le> length l"
    by blast
  then show ?thesis
  proof cases
    case 1
    then show ?thesis using Some empty by simp
  next
    case 2
    then show ?thesis using Some raise recognizeGesture_short by simp
  next
    case 3
    show ?thesis
    proof (cases "updateHistory s (l ! 0)")
      case None
      then show ?thesis using Some 3 raise recognizeGesture_raise by simp
    next
      case h: (Some h)
      show ?thesis
        using wf [OF Some 3 checkOrientation_Some h] 3 by simp
    qed
  qed
qed

text \<open>
  Claim C10. Whatever the module state and the argument, \<open>recognizeGesture\<close> returns neither
  \<open>"J"\<close> nor \<open>"R"\<close>: no branch of the classifier produces them.
\<close>

theorem never_J_or_R:
  "recognizeGesture s landmarks \<noteq> Some (''J'', s') \<and>
   recognizeGesture s landmarks \<noteq> Some (''R'', s')"
proof (cases rule: recognizeGesture_cases [where landmarks = landmarks and s = s])
  case null
  then show ?thesis by (simp add: recognizeGesture_null)
next
  case empty
  then show ?thesis by (simp add: recognizeGesture_empty)
next
  case raise
  then show ?thesis by simp
next
  case (wf l orientation h)
  have J: "letterLogic orientation l \<noteq> Some ''J''"
    and R: "letterLogic orientation l \<noteq> Some ''R''"
    by (rule letterLogic_labels)+
  show ?thesis
    using J R unfolding wf(1) recognizeGesture_wf [OF wf(2,3,4)]
    by (cases "letterLogic orientation l") auto
qed

text \<open>
  Claim C5. When a call returns \<open>"6-7"\<close>, it leaves the history empty, and a second call
  with the same landmarks in the state the first call left returns a label other than
  \<open>"6-7"\<close>.
\<close>

theorem second_call_after_shake:
  assumes "recognizeGesture s landmarks = Some (''6-7'', s')"
  shows "verticalHistory s' = [] \<and>
         (\<exists>g s''. recognizeGesture s' landmarks = Some (g, s'') \<and> g \<noteq> ''6-7'')"
proof (cases rule: recognizeGesture_cases [where landmarks = landmarks and s = s])
  case null
  then show ?thesis using assms by (simp add: recognizeGesture_null)
next
  case empty
  then show ?thesis using assms by (simp add: recognizeGesture_empty)
next
  case raise
  then show ?thesis using assms by simp
next
  case (wf l orientation h)
  have L: "letterLogic orientation l \<noteq> Some ''6-7''" by (rule letterLogic_labels)
  have s': "s' = \<lparr>prevLandmarks = Some l, verticalHistory = []\<rparr>"
    using assms L unfolding wf(1) recognizeGesture_wf [OF wf(2,3,4)]
    by (cases "letterLogic orientation l") (auto split: if_splits)
  have ne: "l \<noteq> []" using wf(2) by auto
  have h2: "updateHistory s' (l ! 0) = Some []"
    unfolding s' by (rule updateHistory_same_frame [OF ne])
  show ?thesis
    using L unfolding wf(1) recognizeGesture_wf [OF wf(2,3) h2]
    by (cases "letterLogic orientation l") (auto simp: s')
qed


lemma shaking_first_call:
  "recognizeGesture shaking (Some (fist_thumb_out 0.5)) =
     Some (''6-7'', \<lparr>prevLandmarks = Some (fist_thumb_out 0.5), verticalHistory = []\<rparr>)"
proof -
  have len: "21 \<le> length (fist_thumb_out 0.5)" by (simp add: length_fist_thumb_out)
  have u: "updateHistory shaking (fist_thumb_out 0.5 ! 0) = Some [- 1, 1, - 1, 1, - 1, 1, - 1]"
    by (simp add: updateHistory_def shaking_def)
  show ?thesis
    unfolding recognizeGesture_wf [OF len checkOrientation_fist_thumb_out u] by simp
qed

text \<open>
  Claim C5 at a concrete input: a history of seven alternating signs and a fist with the thumb
  out. The first call returns \<open>"6-7"\<close>, the second one does not.
\<close>

theorem second_call_after_shake_witness:
  "recognizeGesture shaking (Some (fist_thumb_out 0.5)) =
     Some (''6-7'', \<lparr>prevLandmarks = Some (fist_thumb_out 0.5), verticalHistory = []\<rparr>)
   \<and> (\<exists>g s''. recognizeGesture \<lparr>prevLandmarks = Some (fist_thumb_out 0.5), verticalHistory = []\<rparr>
                  (Some (fist_thumb_out 0.5)) = Some (g, s'')
               \<and> g \<noteq> ''6-7'')"
  using second_call_after_shake [OF shaking_first_call] shaking_first_call by simp

section \<open>Motion history and shake\<close>

lemma directionChanges_count:
  "directionChanges h = length (filter (\<lambda>i. h ! Suc i \<noteq> h ! i) [0..<length h - 1])"
proof (induction h rule: directionChanges.induct)
  case (1 a b rest)
  have "[0..<length (a # b # rest) - 1] = 0 # map Suc [0..<length (b # rest) - 1]"
    by (simp add: upt_conv_Cons map_Suc_upt del: upt_Suc)
  then show ?case using 1 by (simp add: filter_map comp_def del: upt_Suc)
qed simp_all


lemma updateHistory_total:
  assumes "prevLandmarks s \<noteq> Some []"
  shows "updateHistory s wrist =
     Some (case prevLandmarks s of
             None \<Rightarrow> verticalHistory s
           | Some prev \<Rightarrow>
               (let dy = lm_y wrist - lm_y (prev ! 0)
                in if dy < - 0.02 then pushHistory (verticalHistory s) (- 1)
                   else if dy > 0.02 then pushHistory (verticalHistory s) 1
                   else verticalHistory s))"
proof (cases "prevLandmarks s")
  case None
  then show ?thesis by (simp add: updateHistory_def)
next
  case (Some prev)
  with assms have "prev \<noteq> []" by simp
  from updateHistory_Some [OF Some this] Some show ?thesis by (simp add: Let_def)
qed

text \<open>
  Claim C4. For a hand of at least 21 landmarks: the history \<open>h\<close> after the motion block is
  the old one when there is no previous frame; with a previous frame it gets the sign - 1
  when \<open>dy < - 0.02\<close>, the sign 1 when \<open>dy > 0.02\<close> and nothing otherwise. A push keeps the
  last 20 entries, dropping the oldest. \<open>directionChanges\<close> counts the adjacent pairs that
  differ. When \<open>h\<close> has more than 6 entries and at least 4 changes the call returns \<open>"6-7"\<close>
  with the history cleared, whatever the shape of the hand; otherwise it returns another
  label and keeps \<open>h\<close>.
\<close>

theorem motion_history_and_shake:
  assumes "21 \<le> length l" and "prevLandmarks s \<noteq> Some []"
    and "h = (case prevLandmarks s of
                None \<Rightarrow> verticalHistory s
              | Some prev \<Rightarrow>
                  (let dy = lm_y (l ! 0) - lm_y (prev ! 0)
                   in if dy < - 0.02 then pushHistory (verticalHistory s) (- 1)
                      else if dy > 0.02 then pushHistory (verticalHistory s) 1
                      else verticalHistory s))"
  shows "updateHistory s (l ! 0) = Some h
     \<and> pushHistory (verticalHistory s) d =
         (if length (verticalHistory s) < 20 then verticalHistory s @ [d]
          else tl (verticalHistory s) @ [d])
     \<and> (length (verticalHistory s) \<le> 20 \<longrightarrow> length h \<le> 20)
     \<and> directionChanges h = length (filter (\<lambda>i. h ! Suc i \<noteq> h ! i) [0..<length h - 1])
     \<and> (if length h > 6 \<and> directionChanges h \<ge> 4
        then recognizeGesture s (Some l) =
               Some (''6-7'', \<lparr>prevLandmarks = Some l, verticalHistory = []\<rparr>)
        else (\<exists>g s'. recognizeGesture s (Some l) = Some (g, s') \<and> g \<noteq> ''6-7''
                     \<and> verticalHistory s' = h))"
proof -
  have u: "updateHistory s (l ! 0) = Some h"
    unfolding assms(3) by (rule updateHistory_total [OF assms(2)])
  obtain orientation where o: "checkOrientation (Some l) = Some orientation"
    using assms(1) by (simp add: checkOrientation_Some)
  note r = recognizeGesture_wf [OF assms(1) o u]
  have L: "letterLogic orientation l \<noteq> Some ''6-7''" by (rule letterLogic_labels)
  have len: "length (verticalHistory s) \<le> 20 \<longrightarrow> length h \<le> 20"
    unfolding assms(3) by (simp add: length_pushHistory Let_def split: option.split)
  have res: "if length h > 6 \<and> directionChanges h \<ge> 4
        then recognizeGesture s (Some l) =
               Some (''6-7'', \<lparr>prevLandmarks = Some l, verticalHistory = []\<rparr>)
        else (\<exists>g s'. recognizeGesture s (Some l) = Some (g, s') \<and> g \<noteq> ''6-7''
                     \<and> verticalHistory s' = h)"
    using L unfolding r by (cases "letterLogic orientation l") auto
  show ?thesis
    using u len res pushHistory_cap [of "verticalHistory s" d] directionChanges_count [of h]
    by blast
qed

text \<open>
  Claim C4 at a concrete input: six alternating signs in the history, the wrist moves down by
  0.1, the pushed sign makes seven entries with five changes, and the call returns \<open>"6-7"\<close>.
\<close>

theorem motion_history_and_shake_witness:
  "21 \<le> length (fist_thumb_out 0.6)
   \<and> prevLandmarks before_shake \<noteq> Some []
   \<and> updateHistory before_shake (fist_thumb_out 0.6 ! 0) = Some [- 1, 1, - 1, 1, - 1, 1, 1]
   \<and> length (verticalHistory before_shake) \<le> 20
   \<and> directionChanges [- 1, 1, - 1, 1, - 1, 1, 1] = 5
   \<and> recognizeGesture before_shake (Some (fist_thumb_out 0.6)) =
       Some (''6-7'', \<lparr>prevLandmarks = Some (fist_thumb_out 0.6), verticalHistory = []\<rparr>)"
proof -
  have len: "21 \<le> length (fist_thumb_out 0.6)" by (simp add: length_fist_thumb_out)
  have prev: "prevLandmarks before_shake \<noteq> Some []"
    by (simp add: before_shake_def fist_thumb_out_def)
  have h: "[- 1, 1, - 1, 1, - 1, 1, 1] =
     (case prevLandmarks before_shake of
        None \<Rightarrow> verticalHistory before_shake
      | Some prev \<Rightarrow>
          (let dy = lm_y (fist_thumb_out 0.6 ! 0) - lm_y (prev ! 0)
           in if dy < - 0.02 then pushHistory (verticalHistory before_shake) (- 1)
              else if dy > 0.02 then pushHistory (verticalHistory before_shake) 1
              else verticalHistory before_shake))"
    by (simp add: before_shake_def nth_fist_thumb_out pt_def pushHistory_def)
  show ?thesis
    using motion_history_and_shake [OF len prev h, of 1] len prev
    by (simp add: before_shake_def)
qed

section \<open>The pinched open hand\<close>

lemma length_pinched: "length pinched_open_hand = 21"
  by (simp add: pinched_open_hand_def)

lemma nth_pinched:
  "pinched_open_hand ! 0 = pt 0.5 0.9" "pinched_open_hand ! 4 = pt 0.51 0.3"
  "pinched_open_hand ! 8 = pt 0.5 0.3" "pinched_open_hand ! 12 = pt 0.52 0.3"
  "pinched_open_hand ! 16 = pt 0.55 0.3" "pinched_open_hand ! 20 = pt 0.6 0.3"
  "pinched_open_hand ! 6 = pt 0.5 0.6" "pinched_open_hand ! 10 = pt 0.5 0.6"
  "pinched_open_hand ! 14 = pt 0.5 0.6" "pinched_open_hand ! 18 = pt 0.5 0.6"
  by (simp_all add: pinched_open_hand_def)

lemma fingers_pinched:
  "indexOpen pinched_open_hand" "middleOpen pinched_open_hand"
  "ringOpen pinched_open_hand" "pinkyOpen pinched_open_hand"
  by (simp_all add: indexOpen_def middleOpen_def ringOpen_def pinkyOpen_def
      isExtended_def nth_pinched dist_xy_less_dist_xy dist_sq_def pt_def power2_eq_square)

lemma pinch_pinched:
  "dist_xy (pinched_open_hand ! 4) (pinched_open_hand ! 8) < 0.06"
  "dist_xy (pinched_open_hand ! 4) (pinched_open_hand ! 12) < 0.06"
  by (rule iffD2 [OF dist_xy_less_const];
      simp add: nth_pinched dist_sq_def pt_def power2_eq_square)+

text \<open>
  Claim C2, amended. For a hand with index, middle, ring and pinky extended and the thumb tip
  within 0.06 of both the index and the middle fingertip, the classifier returns \<open>"F"\<close>
  (or \<open>"6-7"\<close> when the shake check fires first), not \<open>"O"\<close>: the second F check comes
  before the O check.
\<close>

theorem all_extended_pinch_is_F:
  assumes "21 \<le> length l"
    and "indexOpen l" and "middleOpen l" and "ringOpen l" and "pinkyOpen l"
    and "dist_xy (l ! 4) (l ! 8) < 0.06" and "dist_xy (l ! 4) (l ! 12) < 0.06"
    and "updateHistory s (l ! 0) = Some h"
  shows "recognizeGesture s (Some l) =
           (if length h > 6 \<and> directionChanges h \<ge> 4
            then Some (''6-7'', \<lparr>prevLandmarks = Some l, verticalHistory = []\<rparr>)
            else Some (''F'', s\<lparr>verticalHistory := h\<rparr>))"
proof -
  obtain orientation where o: "checkOrientation (Some l) = Some orientation"
    using assms(1) by (simp add: checkOrientation_Some)
  have "letterLogic orientation l = Some ''F''"
    using assms(2-6) by (simp add: letterLogic_def)
  then show ?thesis
    by (simp add: recognizeGesture_wf [OF assms(1) o assms(8)])
qed

text \<open>
  Claim C2 as stated fails: this hand has all four fingers extended and the thumb tip within
  0.06 of the index and the middle fingertip, and the classifier returns \<open>"F"\<close>.
\<close>

theorem pinched_open_hand_is_not_O:
  "indexOpen pinched_open_hand \<and> middleOpen pinched_open_hand
   \<and> ringOpen pinched_open_hand \<and> pinkyOpen pinched_open_hand
   \<and> dist_xy (pinched_open_hand ! 4) (pinched_open_hand ! 8) < 0.06
   \<and> dist_xy (pinched_open_hand ! 4) (pinched_open_hand ! 12) < 0.06
   \<and> recognizeGesture initial_state (Some pinched_open_hand) = Some (''F'', initial_state)"
proof -
  have o: "checkOrientation (Some pinched_open_hand) = Some UP"
    by (simp add: checkOrientation_Some length_pinched nth_pinched pt_def)
  have u: "updateHistory initial_state (pinched_open_hand ! 0) = Some []"
    by (simp add: updateHistory_def initial_state_def)
  have lf: "letterLogic UP pinched_open_hand = Some ''F''"
    using pinch_pinched by (simp add: letterLogic_def fingers_pinched)
  have len: "21 \<le> length pinched_open_hand" by (simp add: length_pinched)
  have "recognizeGesture initial_state (Some pinched_open_hand) = Some (''F'', initial_state)"
    unfolding recognizeGesture_wf [OF len o u] by (simp add: lf initial_state_def)
  then show ?thesis using pinch_pinched by (simp add: fingers_pinched)
qed

text \<open>
  The amended claim C2 at a concrete input, with a previous frame whose wrist was higher.
\<close>

theorem all_extended_pinch_is_F_witness:
  "21 \<le> length pinched_open_hand
   \<and> indexOpen pinched_open_hand \<and> middleOpen pinched_open_hand
   \<and> ringOpen pinched_open_hand \<and> pinkyOpen pinched_open_hand
   \<and> dist_xy (pinched_open_hand ! 4) (pinched_open_hand ! 8) < 0.06
   \<and> dist_xy (pinched_open_hand ! 4) (pinched_open_hand ! 12) < 0.06
   \<and> updateHistory \<lparr>prevLandmarks = Some (fist_thumb_out 0.5), verticalHistory = [1]\<rparr>
        (pinched_open_hand ! 0) = Some [1, 1]
   \<and> recognizeGesture \<lparr>prevLandmarks = Some (fist_thumb_out 0.5), verticalHistory = [1]\<rparr>
        (Some pinched_open_hand)
       = Some (''F'', \<lparr>prevLandmarks = Some (fist_thumb_out 0.5), verticalHistory = [1, 1]\<rparr>)"
proof -
  have u: "updateHistory \<lparr>prevLandmarks = Some (fist_thumb_out 0.5), verticalHistory = [1]\<rparr>
        (pinched_open_hand ! 0) = Some [1, 1]"
    by (simp add: updateHistory_def landmark_at_def length_fist_thumb_out nth_fist_thumb_out
        nth_pinched pt_def pushHistory_def)
  have len: "21 \<le> length pinched_open_hand" by (simp add: length_pinched)
  show ?thesis
    using all_extended_pinch_is_F [OF len fingers_pinched pinch_pinched u] u len pinch_pinched
    by (simp add: fingers_pinched)
qed


section \<open>Orientation and the previous frame\<close>

text \<open>
  Claim C8. \<open>checkOrientation\<close> is a function of its argument alone. It returns \<open>NONE\<close> for a
  missing or empty array. For a hand that has a landmark 8 it returns \<open>SIDE\<close> when
  \<open>|x8 - x0| > |y8 - y0|\<close>, else \<open>UP\<close> when \<open>y8 < y0\<close>, else \<open>DOWN\<close>.
\<close>

theorem checkOrientation_spec:
  "checkOrientation None = Some NONE
   \<and> checkOrientation (Some []) = Some NONE
   \<and> (8 < length l \<longrightarrow>
        checkOrientation (Some l) =
          Some (if \<bar>lm_x (l ! 8) - lm_x (l ! 0)\<bar> > \<bar>lm_y (l ! 8) - lm_y (l ! 0)\<bar> then SIDE
                else if lm_y (l ! 8) < lm_y (l ! 0) then UP
                else DOWN))"
  by (simp add: checkOrientation_Some) (simp add: checkOrientation_def)

text \<open>
  Claim C8 at the three example hands: index tip above, beside and below the wrist.
\<close>

theorem checkOrientation_spec_witness:
  "8 < length pointing_up \<and> checkOrientation (Some pointing_up) = Some UP
   \<and> checkOrientation (Some (pointing_up[8 := pt 0.7 0.5])) = Some SIDE
   \<and> checkOrientation (Some (pointing_up[8 := pt 0.5 0.7])) = Some DOWN"
  using checkOrientation_spec [of pointing_up]
    checkOrientation_spec [of "pointing_up[8 := pt 0.7 0.5]"]
    checkOrientation_spec [of "pointing_up[8 := pt 0.5 0.7]"]
  by (simp add: pointing_up_def pt_def)

text \<open>
  Claim C1 fails on the code. The first call of a session, with a fist whose thumb is out,
  returns \<open>"A"\<close> and leaves \<open>prevLandmarks\<close> at \<open>null\<close>: the letter branches return before
  the assignment at the end of the function.
\<close>

theorem letter_return_keeps_previous_frame:
  "recognizeGesture initial_state (Some (fist_thumb_out 0.5)) = Some (''A'', initial_state)
   \<and> prevLandmarks initial_state = None"
proof -
  have len: "21 \<le> length (fist_thumb_out 0.5)" by (simp add: length_fist_thumb_out)
  have u: "updateHistory initial_state (fist_thumb_out 0.5 ! 0) = Some []"
    by (simp add: updateHistory_def initial_state_def)
  show ?thesis
    unfolding recognizeGesture_wf [OF len checkOrientation_fist_thumb_out u]
    by (simp add: letterLogic_fist_thumb_out initial_state_def)
qed



section \<open>The gesture buffer keeps a window\<close>


lemma add_window:
  assumes "buffer b = drop (length fs - maxSize b) fs"
  shows "buffer (add b f) = drop (length (fs @ [f]) - maxSize b) (fs @ [f])"
proof (cases "length fs < maxSize b")
  case True
  then show ?thesis using assms by (simp add: add_def Let_def)
next
  case False
  then have "drop (length fs - maxSize b) fs @ [f] = drop (length fs - maxSize b) (fs @ [f])"
    by simp
  then have "tl (drop (length fs - maxSize b) fs @ [f])
             = drop (Suc (length fs - maxSize b)) (fs @ [f])"
    by (simp add: drop_Suc tl_drop del: drop_append)
  moreover have "Suc (length fs - maxSize b) = length (fs @ [f]) - maxSize b"
    using False by simp
  ultimately show ?thesis using assms False by (simp add: add_def Let_def del: drop_append)
qed

lemma maxSize_apply_op: "maxSize (apply_op b x) = maxSize b"
  by (cases x) (simp_all add: add_def clear_def Let_def)

lemma apply_op_window:
  assumes "buffer b = drop (length fs - maxSize b) fs"
  shows "buffer (apply_op b x) = drop (length (track fs x) - maxSize b) (track fs x)"
proof (cases x)
  case (Add f)
  then show ?thesis using add_window [OF assms] by simp
next
  case Clear
  then show ?thesis by (simp add: clear_def)
qed

lemma foldl_window:
  assumes "buffer b = drop (length fs - maxSize b) fs"
  shows "buffer (foldl apply_op b ops)
           = drop (length (foldl track fs ops) - maxSize b) (foldl track fs ops)
         \<and> maxSize (foldl apply_op b ops) = maxSize b"
  using assms
proof (induction ops arbitrary: b fs)
  case Nil
  then show ?case by simp
next
  case (Cons x ops)
  have "buffer (apply_op b x)
          = drop (length (track fs x) - maxSize (apply_op b x)) (track fs x)"
    using apply_op_window [OF Cons.prems] by (simp add: maxSize_apply_op)
  from Cons.IH [OF this] show ?case by (simp add: maxSize_apply_op)
qed

lemma run_ops_window:
  "getBuffer (run_ops (newGestureBuffer c) ops)
     = drop (length (addedSinceClear ops) - c) (addedSinceClear ops)"
  using foldl_window [of "newGestureBuffer c" "[]" ops]
  by (simp add: run_ops_def addedSinceClear_def getBuffer_def newGestureBuffer_def)

lemma foldl_add_apply_op: "foldl add b fs = foldl apply_op b (map Add fs)"
  by (induction fs arbitrary: b) simp_all

lemma foldl_track_Add: "foldl track gs (map Add fs) = gs @ fs"
  by (induction fs arbitrary: gs) simp_all

lemma adds_window:
  "getBuffer (foldl add (newGestureBuffer c) fs) = drop (length fs - c) fs"
  using run_ops_window [of c "map Add fs"]
  by (simp add: foldl_add_apply_op run_ops_def addedSinceClear_def foldl_track_Add)

text \<open>
  Claim C6. Start from an empty buffer of capacity \<open>c\<close> and run any sequence of \<open>add\<close> and
  \<open>clear\<close>. After the whole sequence, and after each of its prefixes, the buffer holds at most
  \<open>c\<close> frames. It holds the last \<open>min n c\<close> of the \<open>n\<close> frames added since the last
  \<open>clear\<close>, in the order they were added. Adding 35 frames to a buffer of capacity 30 leaves
  the last 30, and \<open>getBuffer\<close> after \<open>clear\<close> is empty.
\<close>

theorem gesture_buffer_window:
  "length (getBuffer (run_ops (newGestureBuffer c) ops)) \<le> c
   \<and> (\<forall>n. length (getBuffer (run_ops (newGestureBuffer c) (take n ops))) \<le> c)
   \<and> getBuffer (run_ops (newGestureBuffer c) ops)
       = drop (length (addedSinceClear ops) - c) (addedSinceClear ops)
   \<and> length (getBuffer (run_ops (newGestureBuffer c) ops))
       = min (length (addedSinceClear ops)) c
   \<and> getBuffer (foldl add (newGestureBuffer c) fs) = drop (length fs - c) fs
   \<and> (length fs = 35 \<longrightarrow> getBuffer (foldl add (newGestureBuffer 30) fs) = drop 5 fs)
   \<and> getBuffer (clear b) = []"
proof -
  have len: "length (getBuffer (run_ops (newGestureBuffer c) os)) \<le> c" for os
    by (simp add: run_ops_window)
  have "length (getBuffer (run_ops (newGestureBuffer c) ops))
       = min (length (addedSinceClear ops)) c"
    by (simp add: run_ops_window)
  moreover have "length fs = 35 \<longrightarrow> getBuffer (foldl add (newGestureBuffer 30) fs) = drop 5 fs"
    by (simp add: adds_window)
  moreover have "getBuffer (clear b) = []"
    by (simp add: getBuffer_def clear_def)
  ultimately show ?thesis
    using len run_ops_window [of c ops] adds_window [of c fs] by blast
qed

text \<open>
  Claim C6 at a concrete input: frames 0 to 34 added to a buffer of capacity 30 leave frames
  5 to 34.
\<close>

theorem gesture_buffer_window_witness:
  "length (map frame_no [0..<35]) = 35
   \<and> getBuffer (foldl add (newGestureBuffer 30) (map frame_no [0..<35]))
       = map frame_no [5..<35]"
  using gesture_buffer_window [of 30 "[]" "map frame_no [0..<35]"]
  by (simp add: drop_map)

section \<open>The guards of the dynamic matcher\<close>

text \<open>
  Claim C7. A buffer with fewer than 5 frames gives \<open>null\<close>, whatever the frames hold.
\<close>

theorem short_buffer_no_match:
  assumes "length (getBuffer b) < 5"
  shows "recognizeDynamicGesture b = Some None"
  using assms by (simp add: recognizeDynamicGesture_def)

text \<open>
  Claim C7 at a concrete input: four frames whose hands have no landmarks at all, on which
  every detector would raise.
\<close>

theorem short_buffer_no_match_witness:
  "length (getBuffer \<lparr>buffer = [[[]], [[]], [[]], [[]]], maxSize = 30\<rparr>) < 5
   \<and> recognizeDynamicGesture \<lparr>buffer = [[[]], [[]], [[]], [[]]], maxSize = 30\<rparr> = Some None"
  using short_buffer_no_match [of "\<lparr>buffer = [[[]], [[]], [[]], [[]]], maxSize = 30\<rparr>"]
  by (simp add: getBuffer_def)

lemma null_without_current_hand:
  assumes "5 \<le> length (getBuffer b)" and "last (getBuffer b) = []"
  shows "recognizeDynamicGesture b = Some None"
proof -
  from assms(1) have "getBuffer b \<noteq> []" by auto
  then have "getBuffer b ! (length (getBuffer b) - 1) = []"
    using assms(2) by (simp add: last_conv_nth)
  then show ?thesis using assms(1) by (simp add: recognizeDynamicGesture_def Let_def)
qed

text \<open>
  Claim C9. A buffer of at least 5 frames whose last frame holds no hand gives \<open>null\<close>,
  whatever the other frames hold: no detector is run.
\<close>

theorem no_hand_in_current_frame_no_match:
  assumes "5 \<le> length (getBuffer b)" and "last (getBuffer b) = []"
  shows "recognizeDynamicGesture b = Some None"
  using assms by (rule null_without_current_hand)

text \<open>
  Claim C9 at a concrete input: four frames whose hands have no landmarks, on which every
  detector would raise, then a frame without hands.
\<close>

theorem no_hand_in_current_frame_no_match_witness:
  "5 \<le> length (getBuffer \<lparr>buffer = [[[]], [[]], [[]], [[]], []], maxSize = 30\<rparr>)
   \<and> last (getBuffer \<lparr>buffer = [[[]], [[]], [[]], [[]], []], maxSize = 30\<rparr>) = []
   \<and> recognizeDynamicGesture \<lparr>buffer = [[[]], [[]], [[]], [[]], []], maxSize = 30\<rparr>
       = Some None"
  using no_hand_in_current_frame_no_match
          [of "\<lparr>buffer = [[[]], [[]], [[]], [[]], []], maxSize = 30\<rparr>"]
  by (simp add: getBuffer_def)


section \<open>The HELLO detector\<close>

text \<open>
  On a hand with 21 landmarks \<open>checkOpenHand\<close> does not raise and compares each finger
  tip with its MCP joint.
\<close>

lemma checkOpenHand_wf:
  assumes "20 < length h"
  shows "checkOpenHand h =
     Some (lm_y (h ! 8) < lm_y (h ! 5) \<and> lm_y (h ! 12) < lm_y (h ! 9)
           \<and> lm_y (h ! 16) < lm_y (h ! 13) \<and> lm_y (h ! 20) < lm_y (h ! 17))"
  using assms by (auto simp: checkOpenHand_def and_then_def y_less_def landmark_at_def)

lemma some_arr_defined:
  "(\<And>a. a \<in> set as \<Longrightarrow> \<exists>t. p a = Some t) \<Longrightarrow> \<exists>t. some_arr p as = Some t"
proof (induction as)
  case Nil
  show ?case by (rule exI [of _ False]) simp
next
  case (Cons a as)
  from Cons.prems [of a] obtain t where "p a = Some t" by auto
  moreover from Cons have "\<exists>t. some_arr p as = Some t" by simp
  ultimately show ?case by auto
qed

lemma filter_arr_defined:
  "(\<And>a. a \<in> set as \<Longrightarrow> \<exists>t. p a = Some t) \<Longrightarrow>
   \<exists>r. filter_arr p as = Some r \<and> set r \<subseteq> set as"
proof (induction as)
  case Nil
  then show ?case by simp
next
  case (Cons a as)
  from Cons.prems [of a] obtain t where "p a = Some t" by auto
  moreover from Cons obtain r where "filter_arr p as = Some r" "set r \<subseteq> set as" by auto
  ultimately show ?case by auto
qed

text \<open>
  When every hand in the frames has its 21 landmarks, counting the frames with an open hand
  and collecting the wrist positions both return.
\<close>

lemma hello_inputs_defined:
  assumes "\<And>f h. f \<in> set fs \<Longrightarrow> h \<in> set f \<Longrightarrow> 20 < length h"
  shows "\<exists>n vs. openHandCount fs = Some n \<and> collectWristXs fs = Some vs"
proof -
  have open_def: "\<exists>t. checkOpenHand h = Some t" if "20 < length h" for h
    using that by (simp add: checkOpenHand_wf)
  have "\<exists>t. some_arr checkOpenHand f = Some t" if "f \<in> set fs" for f
    using that assms open_def by (intro some_arr_defined) blast
  then have "\<exists>r. filter_arr (\<lambda>f. some_arr checkOpenHand f) fs = Some r
                 \<and> set r \<subseteq> set fs"
    by (intro filter_arr_defined) blast
  then have count: "\<exists>n. openHandCount fs = Some n"
    by (auto simp: openHandCount_def)
  have "\<exists>vs. collectWristXs fs = Some vs"
    using assms
  proof (induction fs)
    case Nil
    then show ?case by simp
  next
    case (Cons frame rest)
    have "\<exists>r. filter_arr checkOpenHand frame = Some r \<and> set r \<subseteq> set frame"
      using Cons.prems open_def by (intro filter_arr_defined) auto
    then obtain r where r: "filter_arr checkOpenHand frame = Some r" "set r \<subseteq> set frame"
      by blast
    have "\<exists>pushed. (case r of [] \<Rightarrow> Some []
                       | h # _ \<Rightarrow> do { v \<leftarrow> wristX h; Some [v] }) = Some pushed"
    proof (cases r)
      case Nil
      then show ?thesis by simp
    next
      case (Cons h hs)
      with r(2) have "h \<in> set frame" by auto
      then have "20 < length h" using Cons.prems by auto
      then show ?thesis using Cons by (auto simp: wristX_def landmark_at_def)
    qed
    moreover have "\<exists>vs. collectWristXs rest = Some vs"
      using Cons by auto
    ultimately show ?case using r(1) by auto
  qed
  with count show ?thesis by blast
qed

lemma some_filter_agree:
  "some_arr p f = Some t \<Longrightarrow> filter_arr p f = Some hs \<Longrightarrow> t = (hs \<noteq> [])"
proof (induction f arbitrary: t hs)
  case Nil
  then show ?case by simp
next
  case (Cons a f)
  then show ?case
    by (auto simp: bind_eq_Some_conv split: if_splits)
qed

lemma filter_arr_length: "filter_arr p fs = Some gs \<Longrightarrow> length gs \<le> length fs"
proof (induction fs arbitrary: gs)
  case Nil
  then show ?case by simp
next
  case (Cons a fs)
  then show ?case by (fastforce simp: bind_eq_Some_conv split: if_splits)
qed

lemma collectWristXs_length:
  "filter_arr (\<lambda>f. some_arr checkOpenHand f) fs = Some gs \<Longrightarrow>
   collectWristXs fs = Some vs \<Longrightarrow> length vs = length gs"
proof (induction fs arbitrary: gs vs)
  case Nil
  then show ?case by simp
next
  case (Cons frame rest)
  from Cons.prems(1) obtain t r where
    t: "some_arr checkOpenHand frame = Some t" and
    r: "filter_arr (\<lambda>f. some_arr checkOpenHand f) rest = Some r" and
    gs: "gs = (if t then frame # r else r)"
    by (auto simp: bind_eq_Some_conv)
  from Cons.prems(2) obtain hs pushed more where
    hs: "filter_arr checkOpenHand frame = Some hs" and
    pushed: "(case hs of [] \<Rightarrow> Some [] | h # _ \<Rightarrow> do { v \<leftarrow> wristX h; Some [v] }) = Some pushed" and
    more: "collectWristXs rest = Some more" and
    vs: "vs = pushed @ more"
    by (auto simp: bind_eq_Some_conv)
  have "t = (hs \<noteq> [])" by (rule some_filter_agree [OF t hs])
  moreover have "length pushed = (if hs = [] then 0 else 1)"
    using pushed by (cases hs) (auto simp: bind_eq_Some_conv)
  moreover have "length more = length r" by (rule Cons.IH [OF r more])
  ultimately show ?case by (simp add: gs vs)
qed

text \<open>
  Claim C3, amended. When the current frame holds a hand, more than 14 of the last 20 frames
  hold an open hand, and the wrist positions collected from them turn at least twice and span
  more than 0.1, the matcher returns \<open>"HELLO"\<close>. The two hypotheses on \<open>openHandCount\<close> and
  \<open>collectWristXs\<close> include that inspecting the hands of these frames does not raise. There
  are as many wrist positions as frames with an open hand, so the test for more than 10
  samples holds as well.
\<close>

theorem hello_when_waving:
  assumes "last (getBuffer b) \<noteq> []"
    and "openHandCount (recentFramesForHello (getBuffer b)) = Some n"
    and "n > 14"
    and "collectWristXs (recentFramesForHello (getBuffer b)) = Some wristXs"
    and "countReversals wristXs \<ge> 2"
    and "range_of wristXs > 0.1"
  shows "recognizeDynamicGesture b = Some (Some ''HELLO'')"
proof -
  from assms(2) obtain gs where
    gs: "filter_arr (\<lambda>f. some_arr checkOpenHand f) (recentFramesForHello (getBuffer b)) = Some gs"
    and n: "n = length gs"
    by (auto simp: openHandCount_def bind_eq_Some_conv)
  have "length gs \<le> length (recentFramesForHello (getBuffer b))"
    by (rule filter_arr_length [OF gs])
  also have "\<dots> \<le> length (getBuffer b)"
    by (simp add: recentFramesForHello_def)
  finally have len: "14 < length (getBuffer b)" using assms(3) n by simp
  then have ne: "getBuffer b \<noteq> []" by auto
  have cur: "getBuffer b ! (length (getBuffer b) - 1) \<noteq> []"
    using assms(1) ne by (simp add: last_conv_nth)
  have "length wristXs = n"
    using collectWristXs_length [OF gs assms(4)] n by simp
  then have "helloDetected (getBuffer b) = Some True"
    using assms(2-6) by (simp add: helloDetected_def)
  then show ?thesis
    using len cur by (simp add: recognizeDynamicGesture_def Let_def)
qed

lemma open_hand_at_simps:
  "checkOpenHand (open_hand_at wx) = Some True"
  "wristX (open_hand_at wx) = Some wx"
  by (simp_all add: checkOpenHand_def and_then_def y_less_def wristX_def landmark_at_def
      open_hand_at_def pt_def)

lemma one_open_hand:
  "some_arr checkOpenHand [open_hand_at wx] = Some True"
  "filter_arr checkOpenHand [open_hand_at wx] = Some [open_hand_at wx]"
  by (simp_all add: open_hand_at_simps)

lemma count_open_frames:
  "filter_arr (\<lambda>f. some_arr checkOpenHand f) (map (\<lambda>wx. [open_hand_at wx]) ws @ [[]])
     = Some (map (\<lambda>wx. [open_hand_at wx]) ws)"
  "filter_arr (\<lambda>f. some_arr checkOpenHand f) (map (\<lambda>wx. [open_hand_at wx]) ws)
     = Some (map (\<lambda>wx. [open_hand_at wx]) ws)"
  by (induction ws) (simp_all add: open_hand_at_simps)

lemma collect_open_frames:
  "collectWristXs (map (\<lambda>wx. [open_hand_at wx]) ws @ [[]]) = Some ws"
  "collectWristXs (map (\<lambda>wx. [open_hand_at wx]) ws) = Some ws"
  by (induction ws) (simp_all add: one_open_hand open_hand_at_simps)

lemma reversalsLoop_up:
  "b - a > 0.005 \<Longrightarrow>
   reversalsLoop d n (a # b # rest) =
     reversalsLoop 1 (if d \<noteq> 0 \<and> d \<noteq> 1 then n + 1 else n) (b # rest)"
  by (simp add: Let_def)

lemma reversalsLoop_down:
  "a - b > 0.005 \<Longrightarrow>
   reversalsLoop d n (a # b # rest) =
     reversalsLoop (- 1) (if d \<noteq> 0 \<and> d \<noteq> - 1 then n + 1 else n) (b # rest)"
  by (simp add: Let_def)

lemma reversalsLoop_end: "reversalsLoop d n [a] = n"
  by simp

lemma wave_reversals: "countReversals wave = 6" "countReversals (take 19 wave) = 5"
  by (simp_all add: wave_def countReversals_def reversalsLoop_up reversalsLoop_down
      reversalsLoop_end del: reversalsLoop.simps)

lemma wave_range: "range_of wave = 0.3" "range_of (take 19 wave) = 0.3"
  by (simp_all add: wave_def range_of_def)

lemma length_wave: "length wave = 20"
  by (simp add: wave_def)

text \<open>
  Claim C3 as stated fails: 19 of the last 20 frames hold an open hand, the 19 wrist
  positions turn 5 times and span 0.3, but the current frame holds no hand and the matcher
  returns \<open>null\<close>.
\<close>

theorem wave_without_current_hand_no_match:
  "length (recentFramesForHello (getBuffer wave_then_no_hand)) = 20
   \<and> openHandCount (recentFramesForHello (getBuffer wave_then_no_hand)) = Some 19
   \<and> collectWristXs (recentFramesForHello (getBuffer wave_then_no_hand)) = Some (take 19 wave)
   \<and> length (take 19 wave) = 19
   \<and> countReversals (take 19 wave) = 5
   \<and> range_of (take 19 wave) = 0.3
   \<and> recognizeDynamicGesture wave_then_no_hand = Some None"
proof -
  let ?frames = "map (\<lambda>wx. [open_hand_at wx]) (take 19 wave) @ [[]]"
  have g: "getBuffer wave_then_no_hand = ?frames"
    by (simp add: getBuffer_def wave_then_no_hand_def)
  have len: "length ?frames = 20" by (simp add: length_wave)
  then have recent: "recentFramesForHello ?frames = ?frames"
    by (simp add: recentFramesForHello_def)
  have "last (getBuffer wave_then_no_hand) = []" unfolding g by simp
  moreover have "5 \<le> length (getBuffer wave_then_no_hand)" unfolding g using len by simp
  ultimately have "recognizeDynamicGesture wave_then_no_hand = Some None"
    by (rule null_without_current_hand [rotated])
  then show ?thesis
    unfolding g recent
    by (simp add: openHandCount_def count_open_frames collect_open_frames wave_reversals
        wave_range length_wave del: map_append)
qed

text \<open>
  The amended claim C3 at a concrete input: twenty frames, each with one open hand, whose
  wrist follows the wave.
\<close>

theorem hello_when_waving_witness:
  "last (getBuffer waving_buffer) \<noteq> []
   \<and> openHandCount (recentFramesForHello (getBuffer waving_buffer)) = Some 20
   \<and> collectWristXs (recentFramesForHello (getBuffer waving_buffer)) = Some wave
   \<and> countReversals wave = 6
   \<and> range_of wave = 0.3
   \<and> recognizeDynamicGesture waving_buffer = Some (Some ''HELLO'')"
proof -
  let ?frames = "map (\<lambda>wx. [open_hand_at wx]) wave"
  have g: "getBuffer waving_buffer = ?frames"
    by (simp add: getBuffer_def waving_buffer_def)
  have recent: "recentFramesForHello ?frames = ?frames"
    by (simp add: recentFramesForHello_def length_wave)
  have l: "last (getBuffer waving_buffer) \<noteq> []"
    unfolding g by (simp add: wave_def)
  have n: "openHandCount (recentFramesForHello (getBuffer waving_buffer)) = Some 20"
    unfolding g recent by (simp add: openHandCount_def count_open_frames length_wave)
  have c: "collectWristXs (recentFramesForHello (getBuffer waving_buffer)) = Some wave"
    unfolding g recent by (simp add: collect_open_frames)
  have r: "countReversals wave \<ge> 2" by (simp add: wave_reversals)
  have w: "range_of wave > 0.1" by (simp add: wave_range)
  show ?thesis
    using hello_when_waving [OF l n _ c r w] l n c
    by (simp add: wave_reversals wave_range)
qed


end
